theory Spec2Isabelle
  imports Main "HOL-Library.AList" "HOL-Library.Sublist"
begin

section \<open>Python strings\<close>

text \<open>
  A Python \<open>str\<close> is modelled as a \<open>string\<close>; a \<open>char\<close> stands for a code point
  below 256. \<open>isspace\<close> is the whitespace test that \<open>str.strip()\<close> and the
  pattern \<open>\s\<close> share; below 256 it holds of tab, line feed, vertical tab, form
  feed, carriage return, the separators 0x1C to 0x1F, space, 0x85 and 0xA0.
\<close>

definition isspace :: "char \<Rightarrow> bool" where
  "isspace c = (of_char c \<in> {9, 10, 11, 12, 13, 28, 29, 30, 31, 32, 133, 160 :: nat})"

definition isdigit :: "char \<Rightarrow> bool" where
  "isdigit c = (48 \<le> (of_char c :: nat) \<and> (of_char c :: nat) \<le> 57)"

text \<open>\<open>s.strip()\<close>: whitespace removed at both ends.\<close>

definition py_strip :: "string \<Rightarrow> string" where
  "py_strip s = rev (dropWhile isspace (rev (dropWhile isspace s)))"

text \<open>\<open>s.split('\n')\<close>: the pieces between line feeds, at least one piece.\<close>

fun split_nl :: "string \<Rightarrow> string list" where
  "split_nl [] = [[]]"
| "split_nl (c # cs) =
     (if c = CHR 0x0A then [] # split_nl cs
      else (case split_nl cs of [] \<Rightarrow> [[c]] | l # ls \<Rightarrow> (c # l) # ls))"

text \<open>\<open>str(n)\<close> for a non-negative integer, as \<open>f"N{node_counter}"\<close> needs it.\<close>

definition digit_char :: "nat \<Rightarrow> char" where
  "digit_char d = char_of (48 + d)"

fun str_nat :: "nat \<Rightarrow> string" where
  "str_nat n = (if n < 10 then [digit_char n] else str_nat (n div 10) @ [digit_char (n mod 10)])"

section \<open>Regular expressions\<close>

text \<open>
  The two patterns of the program use character classes, literals, greedy \<open>*\<close>, \<open>+\<close>
  and \<open>?\<close>, alternation, groups and \<open>$\<close>. \<open>rx_run\<close> lists every way the
  backtracking matcher of \<open>re\<close> can match a pattern at the start of the text, in the order
  in which the matcher tries them: each result is the text left over and the groups
  captured. \<open>re.match\<close> returns the first one.
\<close>

datatype rx =
    Cls "char \<Rightarrow> bool"
  | Lit string
  | Star "char \<Rightarrow> bool"
  | Seq rx rx
  | Alt rx rx
  | Opt rx
  | Grp nat rx
  | Eos

type_synonym groups = "nat \<rightharpoonup> string"

text \<open>Greedy repetition of a class: the longest run first, then each shorter one.\<close>

fun star_rests :: "(char \<Rightarrow> bool) \<Rightarrow> string \<Rightarrow> string list" where
  "star_rests p [] = [[]]"
| "star_rests p (c # cs) = (if p c then star_rests p cs @ [c # cs] else [c # cs])"

fun rx_run :: "rx \<Rightarrow> string \<times> groups \<Rightarrow> (string \<times> groups) list" where
  "rx_run (Cls p) (s, g) = (case s of [] \<Rightarrow> [] | c # cs \<Rightarrow> if p c then [(cs, g)] else [])"
| "rx_run (Lit w) (s, g) = (if take (length w) s = w then [(drop (length w) s, g)] else [])"
| "rx_run (Star p) (s, g) = map (\<lambda>r. (r, g)) (star_rests p s)"
| "rx_run (Seq a b) st = concat (map (rx_run b) (rx_run a st))"
| "rx_run (Alt a b) st = rx_run a st @ rx_run b st"
| "rx_run (Opt a) st = rx_run a st @ [st]"
| "rx_run (Grp n a) (s, g) =
     map (\<lambda>(r, g'). (r, g'(n \<mapsto> take (length s - length r) s))) (rx_run a (s, g))"
| "rx_run Eos (s, g) = (if s = [] \<or> s = [CHR 0x0A] then [(s, g)] else [])"

definition PlusR :: "(char \<Rightarrow> bool) \<Rightarrow> rx" where
  "PlusR p = Seq (Cls p) (Star p)"

definition re_match :: "rx \<Rightarrow> string \<Rightarrow> groups option" where
  "re_match r s = (case rx_run r (s, Map.empty) of [] \<Rightarrow> None | (_, g) # _ \<Rightarrow> Some g)"

text \<open>\<open>\d+\.?\d*\<close>\<close>

definition number_rx :: rx where
  "number_rx = Seq (PlusR isdigit) (Seq (Opt (Lit ''.'')) (Star isdigit))"

text \<open>\<open>(.*):\s*(POS|NEG)\s*\((\d+\.?\d*)(?:/(\d+\.?\d*))?\)$\<close>\<close>

definition leaf_rx :: rx where
  "leaf_rx =
     Seq (Grp 1 (Star (\<lambda>c. c \<noteq> CHR 0x0A)))
    (Seq (Lit '':'')
    (Seq (Star isspace)
    (Seq (Grp 2 (Alt (Lit ''POS'') (Lit ''NEG'')))
    (Seq (Star isspace)
    (Seq (Lit ''('')
    (Seq (Grp 3 number_rx)
    (Seq (Opt (Seq (Lit ''/'') (Grp 4 number_rx)))
    (Seq (Lit '')'') Eos))))))))"

text \<open>\<open>([a-zA-Z0-9_.-]+)\s*[<=>!]+\s*(\d+\.?\d*)$\<close>\<close>

definition name_char :: "char \<Rightarrow> bool" where
  "name_char c =
     ((97 \<le> (of_char c :: nat) \<and> (of_char c :: nat) \<le> 122) \<or>
      (65 \<le> (of_char c :: nat) \<and> (of_char c :: nat) \<le> 90) \<or>
      isdigit c \<or> c = CHR ''_'' \<or> c = CHR ''.'' \<or> c = CHR ''-'')"

definition cmp_char :: "char \<Rightarrow> bool" where
  "cmp_char c = (c = CHR ''<'' \<or> c = CHR ''='' \<or> c = CHR ''>'' \<or> c = CHR ''!'')"

definition feature_rx :: rx where
  "feature_rx =
     Seq (Grp 1 (PlusR name_char))
    (Seq (Star isspace)
    (Seq (PlusR cmp_char)
    (Seq (Star isspace)
    (Seq (Grp 2 number_rx) Eos))))"

section \<open>Floating-point values\<close>

text \<open>
  The program reads decimal texts with \<open>float\<close> and prints floats inside f-strings; it
  does no arithmetic on them. Python's float type and these built-ins are not part of the
  repository: the embedding is generic in the type \<open>'f\<close> of floats and takes the
  built-ins it needs as a record of operations.
\<close>

record 'f float_ops =
  float_of :: "string \<Rightarrow> 'f"      \<comment> \<open>\<open>float(s)\<close>\<close>
  float_zero :: "'f"               \<comment> \<open>the literal \<open>0.0\<close>\<close>
  float_repr :: "'f \<Rightarrow> string"    \<comment> \<open>\<open>f"{x}"\<close>\<close>
  float_fmt2 :: "'f \<Rightarrow> string"    \<comment> \<open>\<open>f"{x:.2f}"\<close>\<close>

section \<open>Parsing: \<open>parse_weka_j48_tree\<close>\<close>

text \<open>The dictionary that the parser builds for each line; \<open>node_text\<close> is its key \<open>'text'\<close>.\<close>

record 'f node =
  level :: nat
  node_text :: string
  prediction :: "string option"
  instances :: "'f option"
  error :: "'f option"
  parent_node_id :: "string option"
  parent_relation :: "string option"
  node_id :: "string option"

definition marker :: string where
  "marker = ''|   ''"

text \<open>The inner \<open>while\<close> loop: one level for each leading \<open>'|   '\<close>, which is removed.\<close>

function count_level :: "nat \<Rightarrow> string \<Rightarrow> nat \<times> string" where
  "count_level lvl line =
     (if prefix marker line then count_level (lvl + 1) (drop 4 line) else (lvl, line))"
  by pat_completeness auto
termination
  by (relation "measure (\<lambda>(lvl, line). length line)") (auto simp: marker_def prefix_def)

text \<open>
  \<open>m.group(k)\<close> for a group that takes part in every match (groups 1 to 3 of the leaf
  pattern, group 1 of the feature pattern; see \<open>leaf_rx_groups\<close> and
  \<open>feature_rx_groups\<close> below).
\<close>

definition group :: "groups \<Rightarrow> nat \<Rightarrow> string" where
  "group m k = (case m k of Some s \<Rightarrow> s | None \<Rightarrow> [])"

text \<open>The body of the \<open>for\<close> loop for a line that is not blank.\<close>

definition parse_line :: "'f float_ops \<Rightarrow> string \<Rightarrow> 'f node" where
  "parse_line ops line0 =
     (case count_level 0 line0 of (lvl, line) \<Rightarrow>
        (case re_match leaf_rx (py_strip line) of
           Some leaf_match \<Rightarrow>
             \<lparr>level = lvl,
              node_text = py_strip (group leaf_match 1),
              prediction = Some (group leaf_match 2),
              instances = Some (float_of ops (group leaf_match 3)),
              error = Some (case leaf_match 4 of
                              Some e \<Rightarrow> if e \<noteq> [] then float_of ops e else float_zero ops
                            | None \<Rightarrow> float_zero ops),
              parent_node_id = None, parent_relation = None, node_id = None\<rparr>
         | None \<Rightarrow>
             \<lparr>level = lvl,
              node_text = py_strip line,
              prediction = None, instances = None, error = None,
              parent_node_id = None, parent_relation = None, node_id = None\<rparr>))"

fun parse_lines :: "'f float_ops \<Rightarrow> string list \<Rightarrow> 'f node list" where
  "parse_lines ops [] = []"
| "parse_lines ops (line # rest) =
     (if py_strip line = [] then parse_lines ops rest
      else parse_line ops line # parse_lines ops rest)"

definition parse_weka_j48_tree :: "'f float_ops \<Rightarrow> string \<Rightarrow> 'f node list" where
  "parse_weka_j48_tree ops tree_text = parse_lines ops (split_nl (py_strip tree_text))"

section \<open>Reconstruction: \<open>build_tree_structure\<close>\<close>

text \<open>
  The local variables of \<open>build_tree_structure\<close>. \<open>nodes_dict\<close> is a Python dict: an
  association list in insertion order, where assigning to a key that is present
  replaces its value in place and assigning to a new key appends it
  (\<open>AList.update\<close>). The top of \<open>stack\<close> is its last element, as in the source.
\<close>

record 'f build_state =
  nodes_dict :: "(string \<times> 'f node) list"
  node_counter :: nat
  stack :: "(string \<times> nat) list"
  root_node_id :: "string option"

text \<open>\<open>while stack and stack[-1][1] >= node_data['level']: stack.pop()\<close>\<close>

function pop_stack :: "nat \<Rightarrow> (string \<times> nat) list \<Rightarrow> (string \<times> nat) list" where
  "pop_stack lvl stk =
     (if stk \<noteq> [] \<and> snd (last stk) \<ge> lvl then pop_stack lvl (butlast stk) else stk)"
  by pat_completeness auto
termination
  by (relation "measure (\<lambda>(lvl, stk). length stk)") auto

text \<open>
  One iteration of the loop. The dict holds the very object \<open>node_data\<close> that the
  later assignments mutate, so the entry under \<open>node_id\<close> is written again with the
  mutated record.
\<close>

definition build_step :: "'f build_state \<Rightarrow> 'f node \<Rightarrow> 'f build_state" where
  "build_step st node_data0 =
     (let nid = ''N'' @ str_nat (node_counter st);
          node_data = node_data0\<lparr>node_id := Some nid\<rparr>;
          st1 = st\<lparr>nodes_dict := AList.update nid node_data (nodes_dict st),
                   node_counter := node_counter st + 1\<rparr>
      in if level node_data = 0 then
           st1\<lparr>root_node_id := Some nid, stack := [(nid, 0)]\<rparr>
         else
           (let stk = pop_stack (level node_data) (stack st1);
                node_data' =
                  (if stk \<noteq> [] then
                     node_data\<lparr>parent_node_id := Some (fst (last stk)),
                               parent_relation := Some (node_text node_data)\<rparr>
                   else node_data)
            in st1\<lparr>nodes_dict := AList.update nid node_data' (nodes_dict st1),
                   stack := stk @ [(nid, level node_data)]\<rparr>))"

definition build_init :: "'f build_state" where
  "build_init = \<lparr>nodes_dict = [], node_counter = 0, stack = [], root_node_id = None\<rparr>"

definition build_tree_structure :: "'f node list \<Rightarrow> string option \<times> (string \<times> 'f node) list" where
  "build_tree_structure parsed_nodes =
     (let st = foldl build_step build_init parsed_nodes
      in (root_node_id st, nodes_dict st))"

section \<open>Emission: \<open>generate_dot_from_tree\<close>\<close>

definition dq :: string where
  "dq = [CHR 0x22]"

definition nl :: string where
  "nl = [CHR 0x0A]"

text \<open>A value that is a string or \<open>None\<close>, inside an f-string.\<close>

definition fmt_str :: "string option \<Rightarrow> string" where
  "fmt_str v = (case v of Some s \<Rightarrow> s | None \<Rightarrow> ''None'')"

text \<open>A value that is a float or \<open>None\<close>, inside an f-string.\<close>

definition fmt_float :: "'f float_ops \<Rightarrow> 'f option \<Rightarrow> string" where
  "fmt_float ops v = (case v of Some x \<Rightarrow> float_repr ops x | None \<Rightarrow> ''None'')"

text \<open>The truth value of a string or \<open>None\<close>.\<close>

definition truthy :: "string option \<Rightarrow> bool" where
  "truthy v = (case v of Some s \<Rightarrow> s \<noteq> [] | None \<Rightarrow> False)"

definition header :: string where
  "header =
     ''digraph J48Tree {'' @ nl @
     ''  graph [rankdir=TB];'' @ nl @
     ''  node [shape=box, style=filled, fillcolor=lightgray];'' @ nl @
     ''  edge [fontsize=10];'' @ nl"

text \<open>The text inside the box of a node.\<close>

definition node_label :: "'f float_ops \<Rightarrow> 'f node \<Rightarrow> string" where
  "node_label ops data =
     (if truthy (prediction data) then
        (case error data of
           Some e \<Rightarrow> fmt_str (prediction data) @ '' ('' @ fmt_float ops (instances data) @
                      ''/'' @ float_fmt2 ops e @ '')''
         | None \<Rightarrow> fmt_str (prediction data) @ '' ('' @ fmt_float ops (instances data) @ '')'')
      else
        (case re_match feature_rx (node_text data) of
           Some m \<Rightarrow> group m 1
         | None \<Rightarrow> node_text data))"

text \<open>What the first loop appends for one item of the dict.\<close>

definition node_decl :: "'f float_ops \<Rightarrow> string \<times> 'f node \<Rightarrow> string" where
  "node_decl ops item =
     (case item of (nid, data) \<Rightarrow>
        if truthy (prediction data) then
          ''  '' @ nid @ '' [label='' @ dq @ node_label ops data @ dq @
          '', fillcolor=lightblue];'' @ nl
        else
          ''  '' @ nid @ '' [label='' @ dq @ node_label ops data @ dq @ ''];'' @ nl)"

text \<open>What the second loop appends for one item of the dict: one line or nothing.\<close>

definition edge_decl :: "string \<times> 'f node \<Rightarrow> string list" where
  "edge_decl item =
     (case item of (nid, data) \<Rightarrow>
        if truthy (parent_node_id data) then
          [''  '' @ fmt_str (parent_node_id data) @ '' -> '' @ nid @ '' [label='' @ dq @
           fmt_str (parent_relation data) @ dq @ ''];'' @ nl]
        else [])"

definition node_decls :: "'f float_ops \<Rightarrow> (string \<times> 'f node) list \<Rightarrow> string list" where
  "node_decls ops nodes = map (node_decl ops) nodes"

definition edge_decls :: "(string \<times> 'f node) list \<Rightarrow> string list" where
  "edge_decls nodes = concat (map edge_decl nodes)"

definition generate_dot_from_tree ::
  "'f float_ops \<Rightarrow> string option \<Rightarrow> (string \<times> 'f node) list \<Rightarrow> string" where
  "generate_dot_from_tree ops root_id nodes =
     header @ concat (node_decls ops nodes) @ concat (edge_decls nodes) @ ''}'' @ nl"

section \<open>Evaluation rules\<close>

declare pop_stack.simps [simp del] count_level.simps [simp del] str_nat.simps [simp del]

lemmas rx_defs = re_match_def leaf_rx_def feature_rx_def number_rx_def PlusR_def
  isspace_def isdigit_def name_char_def cmp_char_def

section \<open>The leaf forms\<close>

text \<open>
  Claim C4. The line content \<open>f <= 1: NEG (30.07/14.97)\<close> becomes a leaf record with
  class NEG, instance count \<open>float('30.07')\<close>, error count \<open>float('14.97')\<close> and text
  \<open>f <= 1\<close>; the line content \<open>g > 2: POS (15.7)\<close>, which has no \<open>/error\<close> part,
  becomes a leaf record with class POS, instance count \<open>float('15.7')\<close> and error count
  \<open>0.0\<close>.
\<close>

theorem leaf_forms:
  "parse_line ops ''f <= 1: NEG (30.07/14.97)'' =
     \<lparr>level = 0, node_text = ''f <= 1'', prediction = Some ''NEG'',
      instances = Some (float_of ops ''30.07''), error = Some (float_of ops ''14.97''),
      parent_node_id = None, parent_relation = None, node_id = None\<rparr> \<and>
   parse_line ops ''g > 2: POS (15.7)'' =
     \<lparr>level = 0, node_text = ''g > 2'', prediction = Some ''POS'',
      instances = Some (float_of ops ''15.7''), error = Some (float_zero ops),
      parent_node_id = None, parent_relation = None, node_id = None\<rparr>"
  by (simp add: parse_line_def count_level.simps marker_def rx_defs py_strip_def group_def)

section \<open>The root argument of the emitter\<close>

text \<open>
  Claim C10. The emitted text does not depend on the root identifier passed to
  \<open>generate_dot_from_tree\<close> (\<open>None\<close> included): it is the header, one declaration for
  each item of the node table in table order, the edge lines and the footer, whatever
  the root argument and whether or not a node can be reached from it.
\<close>

theorem root_argument_ignored:
  "generate_dot_from_tree ops r1 nodes = generate_dot_from_tree ops r2 nodes \<and>
   generate_dot_from_tree ops r1 nodes =
     header @ concat (map (node_decl ops) nodes) @ concat (edge_decls nodes) @ ''}'' @ nl \<and>
   length (node_decls ops nodes) = length nodes"
  by (simp add: generate_dot_from_tree_def node_decls_def)

end
